theory Spec2Isabelle
  imports Main
begin

section \<open>Shell command lines of RUN instructions\<close>

text \<open>
  A RUN instruction in shell form hands its text to \<^verbatim>\<open>/bin/sh -c\<close>. The command lines of
  the repository use simple commands, the connectors \<^verbatim>\<open>&&\<close> and \<^verbatim>\<open>||\<close>, and one
  parenthesised group. In the shell grammar the two connectors have the same precedence
  and associate to the left, so a line is a first command followed by a list of
  (connector, command) pairs, folded from the left.
\<close>

type_synonym argv = "string list"

datatype shell =
    Simple argv
  | AndThen shell shell
  | OrElse shell shell
  | Subshell shell

datatype connector = And_If | Or_If

definition and_or :: "shell \<Rightarrow> (connector \<times> shell) list \<Rightarrow> shell" where
  "and_or first rest =
     foldl (\<lambda>acc (c, s). case c of And_If \<Rightarrow> AndThen acc s | Or_If \<Rightarrow> OrElse acc s) first rest"

text \<open>
  Running a command line. Whether a simple command succeeds is not decided by the
  Dockerfile (network, registry, file system), so it is a parameter: \<open>ok k\<close> says
  whether the \<open>k\<close>-th simple command that is executed exits with status 0. The result is the
  exit status of the line and the commands executed so far, in order.
\<close>

fun run_sh :: "(nat \<Rightarrow> bool) \<Rightarrow> shell \<Rightarrow> argv list \<Rightarrow> bool \<times> argv list" where
  "run_sh ok (Simple a) tr = (ok (length tr), tr @ [a])"
| "run_sh ok (AndThen l r) tr =
     (case run_sh ok l tr of (True, tr') \<Rightarrow> run_sh ok r tr' | (False, tr') \<Rightarrow> (False, tr'))"
| "run_sh ok (OrElse l r) tr =
     (case run_sh ok l tr of (True, tr') \<Rightarrow> (True, tr') | (False, tr') \<Rightarrow> run_sh ok r tr')"
| "run_sh ok (Subshell s) tr = run_sh ok s tr"

fun simple_commands :: "shell \<Rightarrow> argv list" where
  "simple_commands (Simple a) = [a]"
| "simple_commands (AndThen l r) = simple_commands l @ simple_commands r"
| "simple_commands (OrElse l r) = simple_commands l @ simple_commands r"
| "simple_commands (Subshell s) = simple_commands s"

section \<open>Dockerfiles\<close>

datatype instr =
    FROM string "string option"
  | RUN shell
  | WORKDIR string
  | COPY "string option" "string list" string
  | USER string
  | ENV string string
  | EXPOSE nat
  | CMD "string list"
  | ENTRYPOINT "string list"

type_synonym dockerfile = "instr list"

subsection \<open>The Dockerfile at the root of the repository\<close>

definition root_Dockerfile :: dockerfile where
  "root_Dockerfile =
   [ FROM ''node:20'' None,
     WORKDIR ''/app'',
     COPY None [''package.json'', ''yarn.lock''] ''./'',
     RUN (Simple [''yarn'', ''install'', ''--frozen-lockfile'']),
     COPY None [''.''] ''.'',
     RUN (Simple [''yarn'', ''build:backend'', ''--config'', ''app-config.production.yaml'']),
     EXPOSE 7007,
     CMD [''yarn'', ''start''] ]"

subsection \<open>The Dockerfile of Step 3 of the guide\<close>

definition apt_toolchain :: argv where
  "apt_toolchain =
   [''apt-get'', ''install'', ''-y'', ''python3'', ''g++'', ''make'', ''build-essential'',
    ''libsqlite3-dev'', ''ca-certificates'', ''curl'', ''git'']"

definition apt_clean :: argv where
  "apt_clean = [''rm'', ''-rf'', ''/var/lib/apt/lists/*'']"

definition guide_Dockerfile :: dockerfile where
  "guide_Dockerfile =
   [ FROM ''node:20-bullseye-slim'' (Some ''build''),
     RUN (and_or (Simple [''apt-get'', ''update''])
            [(And_If, Simple apt_toolchain), (And_If, Simple apt_clean)]),
     WORKDIR ''/app'',
     COPY None [''package.json'', ''yarn.lock''] ''./'',
     RUN (Simple [''yarn'', ''install'', ''--frozen-lockfile'', ''--production'']),
     COPY None [''.''] ''.'',
     RUN (and_or (Simple [''yarn'', ''tsc'']) [(And_If, Simple [''yarn'', ''build:backend''])]),
     FROM ''node:20-bullseye-slim'' None,
     WORKDIR ''/app'',
     COPY (Some ''build'') [''/app''] ''/app'',
     RUN (Simple [''chown'', ''-R'', ''node:node'', ''/app'']),
     USER ''node'',
     ENV ''NODE_ENV'' ''production'',
     EXPOSE 7007,
     ENTRYPOINT [''node'', ''packages/backend'', ''--config'', ''app-config.yaml''] ]"

subsection \<open>The updated Dockerfile of the guide\<close>

definition apt_git :: argv where
  "apt_git = [''apt-get'', ''install'', ''-y'', ''--fix-missing'', ''git'']"

definition install_frozen :: argv where
  "install_frozen = [''yarn'', ''install'', ''--frozen-lockfile'', ''--network-timeout'', ''300000'']"

definition install_retry :: argv where
  "install_retry = [''yarn'', ''install'', ''--network-timeout'', ''300000'']"

definition cache_clean :: argv where
  "cache_clean = [''rm'', ''-rf'', ''$(yarn cache dir)'']"

definition install_production :: argv where
  "install_production =
   [''yarn'', ''install'', ''--frozen-lockfile'', ''--production'', ''--network-timeout'', ''300000'']"

text \<open>
  \<^verbatim>\<open>yarn install --frozen-lockfile --network-timeout 300000 || yarn install --network-timeout 300000 && rm -rf "$(yarn cache dir)"\<close>
\<close>

definition updated_install :: shell where
  "updated_install =
   and_or (Simple install_frozen) [(Or_If, Simple install_retry), (And_If, Simple cache_clean)]"

definition updated_Dockerfile :: dockerfile where
  "updated_Dockerfile =
   [ FROM ''node:20-bullseye-slim'' (Some ''build''),
     RUN (and_or (Simple [''apt-get'', ''update''])
            [(And_If, Simple apt_toolchain),
             (And_If, Simple apt_git),
             (Or_If, Subshell (and_or (Simple [''sleep'', ''10'']) [(And_If, Simple apt_git)])),
             (And_If, Simple apt_clean)]),
     WORKDIR ''/app'',
     COPY None [''package.json'', ''yarn.lock''] ''./'',
     RUN updated_install,
     COPY None [''.''] ''.'',
     FROM ''node:20-bullseye-slim'' None,
     WORKDIR ''/app'',
     COPY (Some ''build'') [''/app''] ''/app'',
     COPY (Some ''build'')
       [''/app/yarn.lock'', ''/app/package.json'', ''/app/packages/backend/dist/skeleton.tar.gz'']
       ''./'',
     RUN (and_or (Simple [''tar'', ''xzf'', ''skeleton.tar.gz''])
            [(And_If, Simple [''rm'', ''skeleton.tar.gz''])]),
     RUN (and_or (Simple install_production) [(And_If, Simple cache_clean)]),
     COPY (Some ''build'')
       [''/app/packages/backend/dist/bundle.tar.gz'', ''/app/app-config*.yaml''] ''./'',
     RUN (and_or (Simple [''tar'', ''xzf'', ''bundle.tar.gz''])
            [(And_If, Simple [''rm'', ''bundle.tar.gz''])]),
     RUN (Simple [''chown'', ''-R'', ''node:node'', ''/app'']),
     USER ''node'',
     ENV ''NODE_ENV'' ''production'',
     EXPOSE 7007,
     ENV ''BACKSTAGE_APP_PORT'' ''7007'',
     ENV ''POSTGRES_HOST'' ''postgres'',
     ENV ''POSTGRES_PORT'' ''5432'',
     ENV ''POSTGRES_USER'' ''backstage'',
     ENV ''POSTGRES_PASSWORD'' ''backstage'',
     ENV ''POSTGRES_DB'' ''backstage_plugin_app'',
     ENTRYPOINT [''node'', ''packages/backend'', ''--config'', ''app-config.yaml'',
                 ''--config'', ''app-config.production.yaml''] ]"

subsection \<open>Stages and what a stage declares\<close>

fun is_from :: "instr \<Rightarrow> bool" where
  "is_from (FROM _ _) = True"
| "is_from _ = False"

text \<open>Every FROM opens a new stage; the last stage is the image that is tagged.\<close>

fun stages :: "dockerfile \<Rightarrow> instr list list" where
  "stages [] = []"
| "stages [i] = [[i]]"
| "stages (i # j # rest) =
     (if is_from j then [i] # stages (j # rest)
      else (case stages (j # rest) of [] \<Rightarrow> [[i]] | s # ss \<Rightarrow> (i # s) # ss))"

definition final_stage :: "dockerfile \<Rightarrow> instr list" where
  "final_stage df = (case stages df of [] \<Rightarrow> [] | s # ss \<Rightarrow> last (s # ss))"

definition build_stage :: "dockerfile \<Rightarrow> instr list" where
  "build_stage df = (case stages df of [] \<Rightarrow> [] | s # ss \<Rightarrow> s)"

fun stage_alias :: "instr list \<Rightarrow> string option" where
  "stage_alias (FROM _ a # _) = a"
| "stage_alias _ = None"

fun stage_base :: "instr list \<Rightarrow> string option" where
  "stage_base (FROM b _ # _) = Some b"
| "stage_base _ = None"

text \<open>The last USER, WORKDIR instruction of a stage is the one in force at its end.\<close>

definition stage_user :: "instr list \<Rightarrow> string option" where
  "stage_user st = fold (\<lambda>i u. case i of USER n \<Rightarrow> Some n | _ \<Rightarrow> u) st None"

definition stage_workdir :: "instr list \<Rightarrow> string option" where
  "stage_workdir st = fold (\<lambda>i w. case i of WORKDIR d \<Rightarrow> Some d | _ \<Rightarrow> w) st None"

text \<open>
  The account the container's process runs as: the final stage's USER, and where the
  Dockerfile declares none, whatever the base image has (a parameter; the official
  \<^verbatim>\<open>node\<close> images declare none either, which leaves root).
\<close>

definition effective_user :: "string \<Rightarrow> dockerfile \<Rightarrow> string" where
  "effective_user base_user df =
     (case stage_user (final_stage df) of None \<Rightarrow> base_user | Some u \<Rightarrow> u)"

definition stage_commands :: "instr list \<Rightarrow> argv list" where
  "stage_commands st = concat (map (\<lambda>i. case i of RUN s \<Rightarrow> simple_commands s | _ \<Rightarrow> []) st)"

definition is_yarn_install :: "argv \<Rightarrow> bool" where
  "is_yarn_install a = (take 2 a = [''yarn'', ''install''])"

definition is_apt_install :: "argv \<Rightarrow> bool" where
  "is_apt_install a = (take 2 a = [''apt-get'', ''install''])"

definition dependency_installs :: "dockerfile \<Rightarrow> argv list" where
  "dependency_installs df = filter is_yarn_install (stage_commands df)"

definition lockfile_pinned :: "argv \<Rightarrow> bool" where
  "lockfile_pinned a = (''--frozen-lockfile'' \<in> set a)"

definition production_only :: "argv \<Rightarrow> bool" where
  "production_only a = (''--production'' \<in> set a)"

definition exposed_ports :: "dockerfile \<Rightarrow> nat list" where
  "exposed_ports df = concat (map (\<lambda>i. case i of EXPOSE p \<Rightarrow> [p] | _ \<Rightarrow> []) (final_stage df))"

text \<open>Source paths that a stage takes over from an earlier stage with COPY --from.\<close>

definition carried_from :: "string \<Rightarrow> instr list \<Rightarrow> string list" where
  "carried_from a st =
     concat (map (\<lambda>i. case i of COPY (Some b) srcs _ \<Rightarrow> (if b = a then srcs else []) | _ \<Rightarrow> []) st)"

definition copies_context :: "instr list \<Rightarrow> bool" where
  "copies_context st = (COPY None [''.''] ''.'' \<in> set st)"

text \<open>Source paths that a stage copies from the build context (COPY without --from).\<close>

definition copied_from_context :: "instr list \<Rightarrow> string list" where
  "copied_from_context st =
     concat (map (\<lambda>i. case i of COPY None srcs _ \<Rightarrow> srcs | _ \<Rightarrow> []) st)"

text \<open>The configuration files an ENTRYPOINT names with \<^verbatim>\<open>--config\<close>, in order.\<close>

fun config_args :: "argv \<Rightarrow> string list" where
  "config_args (a # f # rest) =
     (if a = ''--config'' then f # config_args rest else config_args (f # rest))"
| "config_args _ = []"

definition entrypoint :: "dockerfile \<Rightarrow> argv option" where
  "entrypoint df = fold (\<lambda>i e. case i of ENTRYPOINT a \<Rightarrow> Some a | _ \<Rightarrow> e) (final_stage df) None"

text \<open>
  The ENV instructions of the final stage, the latest first (a later ENV of the same
  variable replaces an earlier one).
\<close>

definition image_env :: "dockerfile \<Rightarrow> (string \<times> string) list" where
  "image_env df = rev (concat (map (\<lambda>i. case i of ENV k v \<Rightarrow> [(k, v)] | _ \<Rightarrow> []) (final_stage df)))"

section \<open>Application configuration files\<close>

text \<open>
  A YAML configuration file as the list of its leaves: the path of keys and the scalar as
  written. A scalar of the form \<^verbatim>\<open>${NAME}\<close> is a reference to the environment variable
  \<open>NAME\<close>, substituted when the server loads its configuration; anything else is a literal.
\<close>

type_synonym yaml = "(string list \<times> string) list"

definition conn_key :: "string \<Rightarrow> string list" where
  "conn_key p = [''backend'', ''database'', ''connection'', p]"

definition conn_params :: "string list" where
  "conn_params = [''host'', ''port'', ''user'', ''password'', ''database'']"

text \<open>Step 2, and again Next Steps 1 (for \<^verbatim>\<open>app-config.production.yaml\<close>): the same text.\<close>

definition app_config :: yaml where
  "app_config =
   [ ([''backend'', ''database'', ''client''], ''pg''),
     (conn_key ''host'', ''${POSTGRES_HOST}''),
     (conn_key ''port'', ''${POSTGRES_PORT}''),
     (conn_key ''user'', ''${POSTGRES_USER}''),
     (conn_key ''password'', ''${POSTGRES_PASSWORD}''),
     (conn_key ''database'', ''${POSTGRES_DB}'') ]"

text \<open>Step 7: \<^verbatim>\<open>app-config.production.yaml\<close> for Cloud SQL.\<close>

definition app_config_production_step7 :: yaml where
  "app_config_production_step7 =
   [ ([''backend'', ''database'', ''client''], ''pg''),
     (conn_key ''host'', ''your-cloud-sql-instance-ip''),
     (conn_key ''port'', ''5432''),
     (conn_key ''user'', ''backstage''),
     (conn_key ''password'', ''your-secure-password''),
     (conn_key ''database'', ''backstage_plugin_app'') ]"

definition env_ref :: "string \<Rightarrow> string option" where
  "env_ref s =
     (if take 2 s = ''${'' \<and> 2 < length s \<and> last s = CHR ''}'' then Some (butlast (drop 2 s))
      else None)"

text \<open>Several configuration files are merged key by key; a later file wins.\<close>

definition cfg_lookup :: "yaml list \<Rightarrow> string list \<Rightarrow> string option" where
  "cfg_lookup cfgs k = fold (\<lambda>c r. case map_of c k of Some v \<Rightarrow> Some v | None \<Rightarrow> r) cfgs None"

text \<open>
  Where the value of a configuration key comes from once a server has loaded the
  configuration files \<open>cfgs\<close>: the environment the runtime passes to the container
  (compose \<^verbatim>\<open>environment:\<close>, or \<^verbatim>\<open>--set-env-vars\<close>), which replaces the image's ENV of
  the same name; else the image's ENV; or a literal of the configuration file. Loading and
  substitution are done by the configuration loader of the Backstage framework and by the
  container runtime, not by code of the repository; they are written out here to say what
  the files of the guide mean to such a loader. Which files a server loads is not part of
  it: \<open>cfgs\<close> is a parameter.
\<close>

datatype origin = FromRuntime | ImageDefault | ConfigLiteral | Unset

definition resolve ::
  "(string \<times> string) list \<Rightarrow> (string \<times> string) list \<Rightarrow> yaml list \<Rightarrow> string list
     \<Rightarrow> origin \<times> string option" where
  "resolve img rt cfgs k =
     (case cfg_lookup cfgs k of
        None \<Rightarrow> (Unset, None)
      | Some raw \<Rightarrow>
          (case env_ref raw of
             None \<Rightarrow> (ConfigLiteral, Some raw)
           | Some v \<Rightarrow>
               (case map_of rt v of
                  Some x \<Rightarrow> (FromRuntime, Some x)
                | None \<Rightarrow>
                    (case map_of img v of
                       Some x \<Rightarrow> (ImageDefault, Some x)
                     | None \<Rightarrow> (Unset, None)))))"

section \<open>The two-service topology (docker-compose.yml)\<close>

text \<open>
  The compose file is listed twice in the guide (Step 4 and Next Steps 2), with the same
  text. A key that a service does not have is \<open>None\<close> or the empty list.
\<close>

record service =
  image_name :: "string option"
  build :: "string option"
  container_name :: string
  restart :: string
  depends_on :: "string list"
  environment :: "(string \<times> string) list"
  ports :: "string list"
  volumes :: "string list"
  healthcheck :: "string list option"

record compose =
  version :: string
  services :: "(string \<times> service) list"
  named_volumes :: "string list"

definition postgres_service :: service where
  "postgres_service =
   \<lparr> image_name = Some ''postgres:15'',
     build = None,
     container_name = ''backstage-db'',
     restart = ''always'',
     depends_on = [],
     environment =
       [(''POSTGRES_USER'', ''backstage''),
        (''POSTGRES_PASSWORD'', ''backstage''),
        (''POSTGRES_DB'', ''backstage_plugin_app'')],
     ports = [''5432:5432''],
     volumes = [''postgres_data:/var/lib/postgresql/data''],
     healthcheck = None \<rparr>"

definition backstage_service :: service where
  "backstage_service =
   \<lparr> image_name = None,
     build = Some ''.'',
     container_name = ''backstage-app'',
     restart = ''always'',
     depends_on = [''postgres''],
     environment =
       [(''POSTGRES_HOST'', ''postgres''),
        (''POSTGRES_PORT'', ''5432''),
        (''POSTGRES_USER'', ''backstage''),
        (''POSTGRES_PASSWORD'', ''backstage''),
        (''POSTGRES_DB'', ''backstage_plugin_app'')],
     ports = [''7007:7007''],
     volumes = [],
     healthcheck = None \<rparr>"

definition docker_compose :: compose where
  "docker_compose =
   \<lparr> version = ''3.8'',
     services = [(''postgres'', postgres_service), (''backstage'', backstage_service)],
     named_volumes = [''postgres_data''] \<rparr>"

subsection \<open>Scalars of the form a:b, decimal numbers\<close>

definition before_colon :: "string \<Rightarrow> string" where
  "before_colon s = takeWhile (\<lambda>c. c \<noteq> CHR '':'') s"

definition after_colon :: "string \<Rightarrow> string" where
  "after_colon s = drop 1 (dropWhile (\<lambda>c. c \<noteq> CHR '':'') s)"

definition digit :: "char \<Rightarrow> nat option" where
  "digit c =
     map_of [(CHR ''0'', 0), (CHR ''1'', 1), (CHR ''2'', 2), (CHR ''3'', 3), (CHR ''4'', 4),
             (CHR ''5'', 5), (CHR ''6'', 6), (CHR ''7'', 7), (CHR ''8'', 8), (CHR ''9'', 9)] c"

fun decimal_from :: "nat \<Rightarrow> string \<Rightarrow> nat option" where
  "decimal_from acc [] = Some acc"
| "decimal_from acc (c # cs) =
     (case digit c of None \<Rightarrow> None | Some d \<Rightarrow> decimal_from (10 * acc + d) cs)"

definition decimal :: "string \<Rightarrow> nat option" where
  "decimal s = (if s = [] then None else decimal_from 0 s)"

text \<open>A port mapping \<^verbatim>\<open>"host:container"\<close> publishes the container's port on the host's.\<close>

definition host_port :: "string \<Rightarrow> nat option" where
  "host_port m = decimal (before_colon m)"

definition target_port :: "string \<Rightarrow> nat option" where
  "target_port m = decimal (after_colon m)"

definition published_ports :: "compose \<Rightarrow> nat option list" where
  "published_ports c = concat (map (\<lambda>(n, s). map host_port (ports s)) (services c))"

text \<open>
  A volume entry \<^verbatim>\<open>source:target\<close> mounts \<open>source\<close> at the path \<open>target\<close> of the
  container. A source that is a path (it starts with \<^verbatim>\<open>/\<close>, \<^verbatim>\<open>.\<close> or \<^verbatim>\<open>~\<close>) is a
  directory of the host; any other source is the name of a volume, which the file's
  top-level \<^verbatim>\<open>volumes:\<close> declares.
\<close>

datatype mount_kind = NamedVolume | BindMount

definition mount_source :: "string \<Rightarrow> string" where
  "mount_source m = before_colon m"

definition mount_target :: "string \<Rightarrow> string" where
  "mount_target m = after_colon m"

definition mount_kind_of :: "string \<Rightarrow> mount_kind" where
  "mount_kind_of m =
     (case mount_source m of
        [] \<Rightarrow> BindMount
      | c # _ \<Rightarrow> if c \<in> set ''/.~'' then BindMount else NamedVolume)"

text \<open>The option of \<^verbatim>\<open>yarn install\<close> giving the network timeout in milliseconds.\<close>

fun network_timeout :: "argv \<Rightarrow> nat option" where
  "network_timeout (a # v # rest) =
     (if a = ''--network-timeout'' then decimal v else network_timeout (v # rest))"
| "network_timeout _ = None"

section \<open>Build and deploy commands of the guide\<close>

record docker_build =
  build_tag :: string
  build_file :: "string option"
  build_platform :: "string option"
  build_context :: string


definition step8_build_backend :: docker_build where
  "step8_build_backend =
   \<lparr> build_tag = ''gcr.io/YOUR_PROJECT_ID/backstage'',
     build_file = Some ''packages/backend/Dockerfile'',
     build_platform = None, build_context = ''.'' \<rparr>"

definition step8_build_example :: docker_build where
  "step8_build_example =
   \<lparr> build_tag = ''gcr.io/northern-cooler-448817-b0/backstage'',
     build_file = Some ''packages/backend/Dockerfile'',
     build_platform = None, build_context = ''.'' \<rparr>"

definition step8_build_amd64 :: docker_build where
  "step8_build_amd64 =
   \<lparr> build_tag = ''gcr.io/northern-cooler-448817-b0/backstage'',
     build_file = Some ''packages/backend/Dockerfile'',
     build_platform = Some ''linux/amd64'', build_context = ''.'' \<rparr>"

record gcloud_run_deploy =
  deploy_service :: string
  deploy_image :: string
  deploy_platform :: string
  deploy_region :: string
  allow_unauthenticated :: bool
  set_env_vars :: string

text \<open>Step 9, and the two deploy commands of the command log that follows the summary.\<close>

definition step9_deploy :: gcloud_run_deploy where
  "step9_deploy =
   \<lparr> deploy_service = ''backstage'',
     deploy_image = ''gcr.io/YOUR_PROJECT_ID/backstage'',
     deploy_platform = ''managed'',
     deploy_region = ''YOUR_REGION'',
     allow_unauthenticated = True,
     set_env_vars = ''POSTGRES_HOST=your-cloud-sql-instance-ip,POSTGRES_PORT=5432,POSTGRES_USER=backstage,POSTGRES_PASSWORD=your-secure-password,POSTGRES_DB=backstage_plugin_app'' \<rparr>"

definition logged_deploy :: gcloud_run_deploy where
  "logged_deploy =
   \<lparr> deploy_service = ''backstage'',
     deploy_image = ''gcr.io/northern-cooler-448817-b0/backstage'',
     deploy_platform = ''managed'',
     deploy_region = ''us-central1'',
     allow_unauthenticated = True,
     set_env_vars = ''POSTGRES_HOST=35.202.116.158,POSTGRES_PORT=5432,POSTGRES_USER=backstage,POSTGRES_PASSWORD=your-secure-password,POSTGRES_DB=backstage_plugin_app'' \<rparr>"

definition logged_deploy_base_url :: gcloud_run_deploy where
  "logged_deploy_base_url =
   \<lparr> deploy_service = ''backstage'',
     deploy_image = ''gcr.io/northern-cooler-448817-b0/backstage'',
     deploy_platform = ''managed'',
     deploy_region = ''us-central1'',
     allow_unauthenticated = True,
     set_env_vars = ''POSTGRES_HOST=35.202.116.158,POSTGRES_PORT=5432,POSTGRES_USER=backstage,POSTGRES_PASSWORD=your-secure-password,POSTGRES_DB=backstage_plugin_app,BACKSTAGE_BASE_URL=https://backstage-54738136311.us-central1.run.app'' \<rparr>"

text \<open>\<^verbatim>\<open>--set-env-vars\<close> takes a comma-separated list of \<^verbatim>\<open>KEY=VALUE\<close> pairs.\<close>

fun split_on :: "char \<Rightarrow> string \<Rightarrow> string list" where
  "split_on c [] = [[]]"
| "split_on c (x # xs) =
     (if x = c then [] # split_on c xs
      else (case split_on c xs of [] \<Rightarrow> [[x]] | y # ys \<Rightarrow> (x # y) # ys))"

definition key_value :: "string \<Rightarrow> string \<times> string" where
  "key_value s =
     (takeWhile (\<lambda>c. c \<noteq> CHR ''='') s, drop 1 (dropWhile (\<lambda>c. c \<noteq> CHR ''='') s))"

definition deploy_env :: "gcloud_run_deploy \<Rightarrow> (string \<times> string) list" where
  "deploy_env d = map key_value (split_on (CHR '','') (set_env_vars d))"

text \<open>The environment variables a configuration refers to.\<close>

definition env_refs :: "yaml \<Rightarrow> string list" where
  "env_refs c = concat (map (\<lambda>(k, raw). case env_ref raw of None \<Rightarrow> [] | Some v \<Rightarrow> [v]) c)"

section \<open>The end-to-end test configuration (cypress.config.ts)\<close>

text \<open>\<^verbatim>\<open>setupNodeEvents\<close> has an empty body and is left out.\<close>

record e2e_config =
  baseUrl :: string
  specPattern :: string

record cypress_config =
  viewportHeight :: nat
  viewportWidth :: nat
  e2e :: e2e_config

definition cypress_configuration :: cypress_config where
  "cypress_configuration =
   \<lparr> viewportHeight = 1080,
     viewportWidth = 1920,
     e2e = \<lparr> baseUrl = ''http://localhost:3000/'',
             specPattern = ''cypress/e2e/**/*.{js,jsx,ts,tsx}'' \<rparr> \<rparr>"

text \<open>
  The port a URL addresses: the digits after the colon of its authority (the part between
  \<^verbatim>\<open>://\<close> and the next \<^verbatim>\<open>/\<close>), or the default port of its scheme.
\<close>

fun after_scheme :: "string \<Rightarrow> string" where
  "after_scheme [] = []"
| "after_scheme (c # cs) = (if take 3 (c # cs) = ''://'' then drop 3 (c # cs) else after_scheme cs)"

definition url_scheme :: "string \<Rightarrow> string" where
  "url_scheme u = before_colon u"

definition url_authority :: "string \<Rightarrow> string" where
  "url_authority u = takeWhile (\<lambda>c. c \<noteq> CHR ''/'') (after_scheme u)"

definition url_host :: "string \<Rightarrow> string" where
  "url_host u = before_colon (url_authority u)"

definition url_port :: "string \<Rightarrow> nat option" where
  "url_port u =
     (if CHR '':'' \<in> set (url_authority u) then decimal (after_colon (url_authority u))
      else if url_scheme u = ''http'' then Some 80
      else if url_scheme u = ''https'' then Some 443
      else None)"

text \<open>The volume entries of a service of the topology.\<close>

definition service_mounts :: "compose \<Rightarrow> string \<Rightarrow> string list" where
  "service_mounts c n = (case map_of (services c) n of None \<Rightarrow> [] | Some s \<Rightarrow> volumes s)"

section \<open>Building an image\<close>

text \<open>
  The instructions run in order and a RUN whose command line exits with a failure stops
  the build. Only RUN executes commands; the outcome of each command is the parameter
  \<open>ok\<close> of \<open>run_sh\<close>. The result says whether the build succeeded and which commands ran.
\<close>

fun build_image :: "(nat \<Rightarrow> bool) \<Rightarrow> dockerfile \<Rightarrow> argv list \<Rightarrow> bool \<times> argv list" where
  "build_image ok [] tr = (True, tr)"
| "build_image ok (RUN s # rest) tr =
     (case run_sh ok s tr of (True, tr') \<Rightarrow> build_image ok rest tr' | (False, tr') \<Rightarrow> (False, tr'))"
| "build_image ok (i # rest) tr = build_image ok rest tr"

text \<open>
  Whether the final stage takes over, with COPY --from, the whole working directory of
  the first stage.
\<close>

definition retains_whole_build_dir :: "dockerfile \<Rightarrow> bool" where
  "retains_whole_build_dir df =
     (case (stage_alias (build_stage df), stage_workdir (build_stage df)) of
        (Some a, Some w) \<Rightarrow> w \<in> set (carried_from a (final_stage df))
      | _ \<Rightarrow> False)"

section \<open>Facts about the embedded Dockerfiles\<close>

lemma stages_root: "stages root_Dockerfile = [root_Dockerfile]"
  by (simp add: root_Dockerfile_def)

lemma stages_guide:
  "stages guide_Dockerfile = [take 7 guide_Dockerfile, drop 7 guide_Dockerfile]"
  by (simp add: guide_Dockerfile_def)

lemma stages_updated:
  "stages updated_Dockerfile = [take 6 updated_Dockerfile, drop 6 updated_Dockerfile]"
  by (simp add: updated_Dockerfile_def)

lemma updated_install_shape:
  "updated_install =
     AndThen (OrElse (Simple install_frozen) (Simple install_retry)) (Simple cache_clean)"
  by (simp add: updated_install_def and_or_def)

lemma install_step_of_updated_Dockerfile:
  "take 2 (drop 4 (build_stage updated_Dockerfile)) = [RUN updated_install, COPY None [''.''] ''.'']"
  by (simp add: build_stage_def stages_updated) (simp add: updated_Dockerfile_def)

section \<open>The account of the server process\<close>

lemma guide_Dockerfiles_switch_to_node:
  "effective_user b guide_Dockerfile = ''node'' \<and> effective_user b updated_Dockerfile = ''node''"
  by (simp add: effective_user_def final_stage_def stages_guide stages_updated stage_user_def
      guide_Dockerfile_def updated_Dockerfile_def)

text \<open>
  C3 (the server process of every built image runs as a non-privileged account): the
  Dockerfile at the root of the repository has a single stage without any USER
  instruction, so its process runs as whatever account the base image \<^verbatim>\<open>node:20\<close> has,
  which is root; the two Dockerfiles of the guide switch to \<^verbatim>\<open>node\<close> (lemma above).
\<close>

theorem C3_root_Dockerfile_declares_no_user:
  "stage_user (final_stage root_Dockerfile) = None \<and> effective_user b root_Dockerfile = b"
  by (simp add: effective_user_def final_stage_def stages_root stage_user_def root_Dockerfile_def)

section \<open>Dependency installation\<close>

lemma root_and_guide_installs_pinned:
  "map lockfile_pinned (dependency_installs root_Dockerfile) = [True] \<and>
   map lockfile_pinned (dependency_installs guide_Dockerfile) = [True]"
  by (simp add: dependency_installs_def stage_commands_def root_Dockerfile_def guide_Dockerfile_def
      and_or_def is_yarn_install_def lockfile_pinned_def apt_toolchain_def apt_clean_def)

text \<open>
  C4 (every dependency installation path is pinned to the lockfile, so two builds of the
  same sources agree on the dependency versions): of the three \<^verbatim>\<open>yarn install\<close>
  commands of the updated Dockerfile the second, the fallback of the build stage, has no
  \<^verbatim>\<open>--frozen-lockfile\<close>; and when the first install fails and the other commands
  succeed, the RUN step succeeds with the dependencies that the fallback installed.
\<close>

theorem C4_fallback_install_not_pinned:
  "dependency_installs updated_Dockerfile = [install_frozen, install_retry, install_production] \<and>
   map lockfile_pinned (dependency_installs updated_Dockerfile) = [True, False, True] \<and>
   run_sh (\<lambda>k. k \<noteq> 0) updated_install [] = (True, [install_frozen, install_retry, cache_clean])"
proof -
  have cmds: "dependency_installs updated_Dockerfile = [install_frozen, install_retry, install_production]"
    by (simp add: dependency_installs_def stage_commands_def updated_Dockerfile_def and_or_def
        updated_install_def is_yarn_install_def install_frozen_def install_retry_def
        install_production_def cache_clean_def apt_toolchain_def apt_git_def apt_clean_def)
  have pins: "map lockfile_pinned [install_frozen, install_retry, install_production] = [True, False, True]"
    by (simp add: lockfile_pinned_def install_frozen_def install_retry_def install_production_def)
  have run: "run_sh (\<lambda>k. k \<noteq> 0) updated_install [] = (True, [install_frozen, install_retry, cache_clean])"
    by (simp add: updated_install_shape)
  from cmds pins run show ?thesis by simp
qed

lemma guide_Dockerfile_install_failure_stops_build:
  "build_image (\<lambda>k. k \<noteq> 3) guide_Dockerfile [] =
     (False, [[''apt-get'', ''update''], apt_toolchain, apt_clean,
              [''yarn'', ''install'', ''--frozen-lockfile'', ''--production'']])"
  by (simp add: guide_Dockerfile_def and_or_def)

text \<open>
  C5, as stated (when the dependency install of the build fails from a network timeout,
  the build does not fail at once but retries the install with an extended timeout), fails:
  the install of the Dockerfile at the root of the repository has no fallback, and neither
  has the install of the final stage of the updated Dockerfile, so that a failure of either
  stops the build with that command; and the one fallback there is carries the same
  \<^verbatim>\<open>--network-timeout\<close> as the attempt before it, not a longer one.
\<close>

theorem C5_install_failure_without_fallback:
  "build_image (\<lambda>k. k \<noteq> 0) root_Dockerfile [] =
     (False, [[''yarn'', ''install'', ''--frozen-lockfile'']]) \<and>
   build_image (\<lambda>k. k \<noteq> 8) updated_Dockerfile [] =
     (False, [[''apt-get'', ''update''], apt_toolchain, apt_git, apt_clean,
              install_frozen, cache_clean,
              [''tar'', ''xzf'', ''skeleton.tar.gz''], [''rm'', ''skeleton.tar.gz''],
              install_production]) \<and>
   network_timeout install_retry = network_timeout install_frozen"
proof -
  have root: "build_image (\<lambda>k. k \<noteq> 0) root_Dockerfile [] =
      (False, [[''yarn'', ''install'', ''--frozen-lockfile'']])"
    by (simp add: root_Dockerfile_def)
  have final: "build_image (\<lambda>k. k \<noteq> 8) updated_Dockerfile [] =
      (False, [[''apt-get'', ''update''], apt_toolchain, apt_git, apt_clean,
               install_frozen, cache_clean,
               [''tar'', ''xzf'', ''skeleton.tar.gz''], [''rm'', ''skeleton.tar.gz''],
               install_production])"
    by (simp add: updated_Dockerfile_def and_or_def updated_install_def)
  have timeouts: "network_timeout install_retry = network_timeout install_frozen"
    by (simp add: install_retry_def install_frozen_def)
  from root final timeouts show ?thesis by simp
qed

text \<open>
  C5, amended: in the build stage of the updated Dockerfile of the guide, whenever the first
  \<^verbatim>\<open>yarn install\<close> of the install step fails (for whatever reason, a network timeout among
  them), the build does not fail at once: the next command executed is the second
  \<^verbatim>\<open>yarn install\<close>, which carries the same \<^verbatim>\<open>--network-timeout 300000\<close> as the first, and
  the build goes on exactly when that retry and the cache clean-up succeed.
\<close>

theorem C5_install_failure_falls_back_to_retry:
  assumes "\<not> ok (length tr)"
  shows "build_image ok (RUN updated_install # rest) tr =
           (if ok (Suc (length tr)) \<and> ok (Suc (Suc (length tr)))
            then build_image ok rest (tr @ [install_frozen, install_retry, cache_clean])
            else (False, tr @ [install_frozen, install_retry] @
                           (if ok (Suc (length tr)) then [cache_clean] else [])))
         \<and> network_timeout install_retry = Some 300000
         \<and> network_timeout install_frozen = Some 300000
         \<and> RUN updated_install \<in> set (build_stage updated_Dockerfile)"
proof -
  have timeout: "network_timeout install_retry = Some 300000 \<and>
      network_timeout install_frozen = Some 300000"
    by (simp add: install_retry_def install_frozen_def decimal_def digit_def)
  have "RUN updated_install \<in> set (take 2 (drop 4 (build_stage updated_Dockerfile)))"
    by (simp add: install_step_of_updated_Dockerfile)
  then have member: "RUN updated_install \<in> set (build_stage updated_Dockerfile)"
    by (meson in_set_dropD in_set_takeD)
  from assms timeout member show ?thesis
    by (simp add: updated_install_shape)
qed

theorem C5_install_failure_falls_back_to_retry_witness:
  "\<not> (\<lambda>k. k \<noteq> 0) (length ([] :: argv list)) \<and>
   build_image (\<lambda>k. k \<noteq> 0) [RUN updated_install] [] =
     (True, [install_frozen, install_retry, cache_clean])"
  using C5_install_failure_falls_back_to_retry [of "\<lambda>k. k \<noteq> 0" "[]" "[]"] by simp

lemma updated_Dockerfile_builds_after_failed_first_install:
  "build_image (\<lambda>k. k \<noteq> 4) updated_Dockerfile [] =
     (True, [[''apt-get'', ''update''], apt_toolchain, apt_git, apt_clean,
             install_frozen, install_retry, cache_clean,
             [''tar'', ''xzf'', ''skeleton.tar.gz''], [''rm'', ''skeleton.tar.gz''],
             install_production, cache_clean,
             [''tar'', ''xzf'', ''bundle.tar.gz''], [''rm'', ''bundle.tar.gz''],
             [''chown'', ''-R'', ''node:node'', ''/app'']])"
  by (simp add: updated_Dockerfile_def and_or_def updated_install_def)

section \<open>The phases of the build\<close>

lemma root_Dockerfile_single_stage: "length (stages root_Dockerfile) = 1"
  by (simp add: stages_root)

lemma guide_Dockerfile_phases:
  "length (stages guide_Dockerfile) = 2 \<and>
   apt_toolchain \<in> set (stage_commands (build_stage guide_Dockerfile)) \<and>
   filter is_apt_install (stage_commands (final_stage guide_Dockerfile)) = [] \<and>
   stage_base (final_stage guide_Dockerfile) = Some ''node:20-bullseye-slim'' \<and>
   copied_from_context (final_stage guide_Dockerfile) = [] \<and>
   carried_from ''build'' (final_stage guide_Dockerfile) = [''/app'']"
  by (simp add: build_stage_def final_stage_def stages_guide stage_commands_def
      copied_from_context_def carried_from_def)
     (simp add: guide_Dockerfile_def and_or_def is_apt_install_def)

lemma updated_Dockerfile_phases:
  "length (stages updated_Dockerfile) = 2 \<and>
   apt_toolchain \<in> set (stage_commands (build_stage updated_Dockerfile)) \<and>
   filter is_apt_install (stage_commands (final_stage updated_Dockerfile)) = [] \<and>
   stage_base (final_stage updated_Dockerfile) = Some ''node:20-bullseye-slim'' \<and>
   copied_from_context (final_stage updated_Dockerfile) = [] \<and>
   ''/app'' \<in> set (carried_from ''build'' (final_stage updated_Dockerfile))"
  by (simp add: build_stage_def final_stage_def stages_updated stage_commands_def
      copied_from_context_def carried_from_def)
     (simp add: updated_Dockerfile_def and_or_def is_apt_install_def install_production_def
      cache_clean_def)

lemma guide_Dockerfile_keeps_build_dir:
  "copies_context (build_stage guide_Dockerfile) \<and>
   stage_workdir (build_stage guide_Dockerfile) = Some ''/app'' \<and>
   retains_whole_build_dir guide_Dockerfile"
  by (simp add: retains_whole_build_dir_def build_stage_def final_stage_def copies_context_def
      stage_workdir_def carried_from_def guide_Dockerfile_def)

lemma updated_Dockerfile_keeps_build_dir:
  "copies_context (build_stage updated_Dockerfile) \<and>
   stage_workdir (build_stage updated_Dockerfile) = Some ''/app'' \<and>
   retains_whole_build_dir updated_Dockerfile"
  by (simp add: retains_whole_build_dir_def build_stage_def final_stage_def copies_context_def
      stage_workdir_def carried_from_def updated_Dockerfile_def)

lemma updated_Dockerfile_build_stage_installs_all_dependencies:
  "map production_only (dependency_installs (build_stage updated_Dockerfile)) = [False, False]"
  by (simp add: build_stage_def dependency_installs_def stage_commands_def updated_Dockerfile_def
      and_or_def updated_install_def install_frozen_def install_retry_def cache_clean_def
      apt_toolchain_def apt_git_def apt_clean_def is_yarn_install_def production_only_def)

text \<open>
  C2, as stated (every image build is a two-phase build whose final layer retains only
  the compiled output and the production dependencies), fails on the Dockerfile of Step 3:
  its build stage copies the whole build context into its working directory \<^verbatim>\<open>/app\<close>, and
  the only thing the final stage takes over is that directory as a whole, the project's
  sources included.
\<close>

theorem C2_final_stage_keeps_project_sources:
  "copies_context (build_stage guide_Dockerfile) \<and>
   stage_workdir (build_stage guide_Dockerfile) = Some ''/app'' \<and>
   carried_from ''build'' (final_stage guide_Dockerfile) = [''/app'']"
  by (simp add: build_stage_def final_stage_def copies_context_def stage_workdir_def
      carried_from_def guide_Dockerfile_def)

text \<open>
  C2, amended: each of the two Dockerfiles of the guide is a two-phase build. The
  operating-system build toolchain (\<^verbatim>\<open>apt-get install\<close> of python3, g++, make, ...) is
  installed in the first phase and in no command of the final stage; the final stage starts
  again from the base image \<^verbatim>\<open>node:20-bullseye-slim\<close> and receives files by
  \<^verbatim>\<open>COPY --from=build\<close> only. What it takes over is the whole working directory \<^verbatim>\<open>/app\<close>
  of the build stage, into which the build stage copied the entire build context.
\<close>

theorem C2_guide_Dockerfiles_two_phase:
  "(length (stages guide_Dockerfile) = 2 \<and>
    apt_toolchain \<in> set (stage_commands (build_stage guide_Dockerfile)) \<and>
    filter is_apt_install (stage_commands (final_stage guide_Dockerfile)) = [] \<and>
    stage_base (final_stage guide_Dockerfile) = Some ''node:20-bullseye-slim'' \<and>
    copied_from_context (final_stage guide_Dockerfile) = [] \<and>
    copies_context (build_stage guide_Dockerfile) \<and>
    retains_whole_build_dir guide_Dockerfile) \<and>
   (length (stages updated_Dockerfile) = 2 \<and>
    apt_toolchain \<in> set (stage_commands (build_stage updated_Dockerfile)) \<and>
    filter is_apt_install (stage_commands (final_stage updated_Dockerfile)) = [] \<and>
    stage_base (final_stage updated_Dockerfile) = Some ''node:20-bullseye-slim'' \<and>
    copied_from_context (final_stage updated_Dockerfile) = [] \<and>
    copies_context (build_stage updated_Dockerfile) \<and>
    retains_whole_build_dir updated_Dockerfile)"
  using guide_Dockerfile_phases updated_Dockerfile_phases
    guide_Dockerfile_keeps_build_dir updated_Dockerfile_keeps_build_dir
  by simp

section \<open>The connection parameters in the configuration of the guide\<close>

text \<open>
  What the files of the guide say about the five connection parameters, whichever image
  and whichever files a server is started with (\<open>img\<close> is any image environment, \<open>pre\<close>
  any configuration files loaded before).
\<close>

lemma configuration_refers_to_compose_variables:
  "env_refs app_config = map fst (environment backstage_service) \<and>
   env_refs app_config_production_step7 = []"
  by (simp add: env_refs_def app_config_def app_config_production_step7_def env_ref_def
      backstage_service_def)

lemma configuration_named_by_the_images:
  "entrypoint root_Dockerfile = None \<and>
   map_option config_args (entrypoint guide_Dockerfile) = Some [''app-config.yaml''] \<and>
   map_option config_args (entrypoint updated_Dockerfile)
     = Some [''app-config.yaml'', ''app-config.production.yaml'']"
  by (simp add: entrypoint_def final_stage_def stages_root stages_guide stages_updated)
     (simp add: root_Dockerfile_def guide_Dockerfile_def updated_Dockerfile_def)

lemma image_env_of_the_images:
  "image_env root_Dockerfile = [] \<and>
   image_env guide_Dockerfile = [(''NODE_ENV'', ''production'')] \<and>
   image_env updated_Dockerfile =
     [(''POSTGRES_DB'', ''backstage_plugin_app''), (''POSTGRES_PASSWORD'', ''backstage''),
      (''POSTGRES_USER'', ''backstage''), (''POSTGRES_PORT'', ''5432''),
      (''POSTGRES_HOST'', ''postgres''), (''BACKSTAGE_APP_PORT'', ''7007''),
      (''NODE_ENV'', ''production'')]"
  by (simp add: image_env_def final_stage_def stages_root stages_guide stages_updated)
     (simp add: root_Dockerfile_def guide_Dockerfile_def updated_Dockerfile_def)

lemma compose_environment_resolves:
  "map (\<lambda>p. resolve img (environment backstage_service) (pre @ [app_config]) (conn_key p))
       conn_params
     = map (\<lambda>(k, v). (FromRuntime, Some v)) (environment backstage_service)"
  by (simp add: conn_params_def resolve_def cfg_lookup_def app_config_def conn_key_def
      env_ref_def backstage_service_def)

lemma step7_literals_resolve:
  "map (\<lambda>p. resolve img rt (pre @ [app_config_production_step7]) (conn_key p)) conn_params
     = [(ConfigLiteral, Some ''your-cloud-sql-instance-ip''), (ConfigLiteral, Some ''5432''),
        (ConfigLiteral, Some ''backstage''), (ConfigLiteral, Some ''your-secure-password''),
        (ConfigLiteral, Some ''backstage_plugin_app'')]"
  by (simp add: conn_params_def resolve_def cfg_lookup_def app_config_production_step7_def
      conn_key_def env_ref_def)

lemma image_defaults_resolve:
  "map (\<lambda>p. resolve (image_env updated_Dockerfile) [] (pre @ [app_config]) (conn_key p))
       conn_params
     = [(ImageDefault, Some ''postgres''), (ImageDefault, Some ''5432''),
        (ImageDefault, Some ''backstage''), (ImageDefault, Some ''backstage''),
        (ImageDefault, Some ''backstage_plugin_app'')]"
  using image_env_of_the_images
  by (simp add: conn_params_def resolve_def cfg_lookup_def app_config_def conn_key_def
      env_ref_def)

section \<open>The managed target\<close>


lemma logged_deploy_variables:
  "map fst (deploy_env logged_deploy) = map fst (environment backstage_service) \<and>
   map fst (deploy_env logged_deploy_base_url) =
     map fst (environment backstage_service) @ [''BACKSTAGE_BASE_URL'']"
  by (simp add: deploy_env_def logged_deploy_def logged_deploy_base_url_def key_value_def
      backstage_service_def)

lemma step8_builds_of_the_deployed_tag:
  "build_tag step8_build_backend = deploy_image step9_deploy \<and>
   build_file step8_build_backend = Some ''packages/backend/Dockerfile''"
  by (simp add: step8_build_backend_def step9_deploy_def)


section \<open>Start order and restart policy of the topology\<close>

lemma topology_start_order_and_restart:
  "map (\<lambda>(n, s). (n, restart s, depends_on s, healthcheck s)) (services docker_compose) =
     [(''postgres'', ''always'', [], None), (''backstage'', ''always'', [''postgres''], None)]"
  by (simp add: docker_compose_def postgres_service_def backstage_service_def)

section \<open>Ports\<close>

text \<open>
  C10 (the end-to-end tests are configured for \<^verbatim>\<open>http://localhost:3000/\<close>, not for port 7007
  that the image exposes and the topology publishes): the base URL of the Cypress
  configuration addresses port 3000 of localhost; each of the three Dockerfiles exposes
  7007 and nothing else; the topology publishes the host ports 5432 (database) and 7007
  (server), so the port of the base URL is none of the published ports.
\<close>

theorem C10_e2e_base_url_port_not_published:
  "url_host (baseUrl (e2e cypress_configuration)) = ''localhost'' \<and>
   url_port (baseUrl (e2e cypress_configuration)) = Some 3000 \<and>
   exposed_ports root_Dockerfile = [7007] \<and>
   exposed_ports guide_Dockerfile = [7007] \<and>
   exposed_ports updated_Dockerfile = [7007] \<and>
   map host_port (ports backstage_service) = [Some 7007] \<and>
   map target_port (ports backstage_service) = [Some 7007] \<and>
   published_ports docker_compose = [Some 5432, Some 7007] \<and>
   url_port (baseUrl (e2e cypress_configuration)) \<notin> set (published_ports docker_compose)"
proof -
  have url: "url_host (baseUrl (e2e cypress_configuration)) = ''localhost'' \<and>
      url_port (baseUrl (e2e cypress_configuration)) = Some 3000"
    by (simp add: url_port_def url_host_def url_authority_def cypress_configuration_def
        after_colon_def before_colon_def decimal_def digit_def)
  have exposed: "exposed_ports root_Dockerfile = [7007] \<and>
      exposed_ports guide_Dockerfile = [7007] \<and> exposed_ports updated_Dockerfile = [7007]"
    by (simp add: exposed_ports_def final_stage_def stages_root stages_guide stages_updated)
       (simp add: root_Dockerfile_def guide_Dockerfile_def updated_Dockerfile_def)
  have server: "map host_port (ports backstage_service) = [Some 7007] \<and>
      map target_port (ports backstage_service) = [Some 7007]"
    by (simp add: backstage_service_def host_port_def target_port_def before_colon_def
        after_colon_def decimal_def digit_def)
  have published: "published_ports docker_compose = [Some 5432, Some 7007]"
    by (simp add: published_ports_def docker_compose_def postgres_service_def
        backstage_service_def host_port_def before_colon_def decimal_def digit_def)
  from url exposed server published show ?thesis by simp
qed

section \<open>The volume of the database\<close>

lemma postgres_mounts:
  "service_mounts docker_compose ''postgres'' = [''postgres_data:/var/lib/postgresql/data'']"
  by (simp add: service_mounts_def docker_compose_def postgres_service_def)

lemma postgres_mount_is_named_volume:
  "map (\<lambda>m. (mount_source m, mount_target m, mount_kind_of m))
       (service_mounts docker_compose ''postgres'')
     = [(''postgres_data'', ''/var/lib/postgresql/data'', NamedVolume)] \<and>
   named_volumes docker_compose = [''postgres_data''] \<and>
   service_mounts docker_compose ''backstage'' = []"
  by (simp add: postgres_mounts mount_source_def mount_target_def mount_kind_of_def
      before_colon_def after_colon_def)
     (simp add: service_mounts_def docker_compose_def backstage_service_def)

end
